theory Spec2Isabelle
  imports Main
begin

section \<open>Values exchanged with the client and with the provider\<close>

text \<open>
  The server (src/unnamed/part_002, \<open>src/server.ts\<close>) handles one request at a time in this
  model: the interleaving of concurrent requests on the module-level \<open>authClient\<close> is outside
  its scope. Strings are \<open>string\<close>, epoch-millisecond timestamps are \<open>int\<close>, and a field that
  JavaScript may leave \<open>undefined\<close> is an \<open>option\<close>.
\<close>

type_synonym exn = string
  \<comment> \<open>the value a rejected promise or a \<open>throw\<close> carries; only passed on, never inspected\<close>

type_synonym payload = string
  \<comment> \<open>the provider's answer to an action; only passed on, never inspected\<close>

text \<open>JavaScript truthiness of the values the handlers test: \<open>!x\<close> is \<open>\<not> truthy x\<close>.\<close>

definition truthy_str :: "string option \<Rightarrow> bool" where
  "truthy_str x = (case x of None \<Rightarrow> False | Some v \<Rightarrow> v \<noteq> [])"

definition truthy_num :: "int option \<Rightarrow> bool" where
  "truthy_num x = (case x of None \<Rightarrow> False | Some n \<Rightarrow> n \<noteq> 0)"

text \<open>The string a truthy value holds (used only under \<open>truthy_str\<close>).\<close>

definition str_value :: "string option \<Rightarrow> string" where
  "str_value x = (case x of None \<Rightarrow> [] | Some v \<Rightarrow> v)"

text \<open>The token object of twitter-api-sdk (\<open>authClient.token\<close>), every field optional.\<close>

record sdk_token =
  access_token :: "string option"
  refresh_token :: "string option"
  token_type :: "string option"
  expires_at :: "int option"

text \<open>\<open>interface TokenData\<close>, as stored in \<open>res.locals.tokenData\<close> (lines 100-104).\<close>

record tokenData =
  td_accessToken :: "string option"
  td_refreshToken :: "string option"
  td_expiresAt :: "int option"

text \<open>\<open>interface TwitterUserData\<close> and the answer of \<open>users.findMyUser()\<close>.\<close>

record twitterUserData =
  tw_id :: string
  tw_username :: "string option"
  tw_name :: "string option"
  tw_profile_image_url :: "string option"

record user_response =
  ur_data :: "twitterUserData option"

text \<open>The fields of \<open>req.body\<close> and \<open>req.query\<close> that the handlers destructure.\<close>

record body =
  accessToken :: "string option"
  refreshToken :: "string option"
  expiresAt :: "int option"
  twitterId :: "string option"
  tweetId :: "string option"

record query =
  q_code :: "string option"
  q_state :: "string option"

record request =
  req_body :: body
  req_query :: query

section \<open>The store\<close>

text \<open>
  The two models of the Prisma schema (src/client-side-example.ts, lines 197-221), column by
  column: \<open>String\<close> is \<open>string\<close>, \<open>String?\<close> and \<open>BigInt?\<close> are options, \<open>DateTime\<close> is epoch
  milliseconds. Ids are the uuids the store generates. \<open>twitterId\<close> is \<open>@unique\<close>: the server
  adds a User row only through the upsert keyed by it. \<open>BigInt\<close> is PostgreSQL's signed 64-bit
  column; a value outside that range is refused by the store, one of the rejections that
  \<open>updateMany_throws\<close> and \<open>upsert_throws\<close> below stand for. The relation of UserAction to
  User is its \<open>userId\<close> column; the server writes there only the id of a row it has just read.
\<close>

record user =
  u_id :: string
  u_twitterId :: string
  u_username :: "string option"
  u_name :: "string option"
  u_profileImgUrl :: "string option"
  u_accessToken :: "string option"
  u_refreshToken :: "string option"
  u_tokenExpiresAt :: "int option"
  u_createdAt :: int
  u_updatedAt :: int

record userAction =
  a_id :: string
  a_userId :: string
  a_tweetId :: string
  a_action :: string
  a_success :: bool
  a_createdAt :: int

text \<open>
  Every call that leaves the process, in the order they are made. A request to the provider's
  API carries the access token of its \<open>Authorization: Bearer\<close> header as first argument.
\<close>

datatype call =
    RefreshAccessToken
  | RequestAccessToken "string option"
  | RevokeAccessToken
  | FindMyUser "string option"
  | UsersIdLike "string option" string string
  | UsersIdRetweets "string option" string string
  | UserUpdateMany string
  | UserUpsert string
  | UserFindFirst string
  | UserActionCreate
  | UserActionCount string

text \<open>
  The state a request runs in: the two tables, the token held by the module-level
  \<open>authClient\<close>, and the log of outbound calls made so far.
\<close>

record state =
  users :: "user list"
  userActions :: "userAction list"
  authClient :: "sdk_token option"
  calls :: "call list"

text \<open>
  What the outside world answers during one request. Each call the server awaits either
  rejects (\<open>Inl\<close>) or resolves (\<open>Inr\<close>); each store call either throws (\<open>Some\<close>) or goes through
  (\<open>None\<close>); the clock readings and the values the store generates are inputs as well.

  \<open>findMyUser\<close>, \<open>usersIdLike\<close> and \<open>usersIdRetweets\<close> are what the handler's \<open>await\<close> yields for
  the whole call. Inside such a call twitter-api-sdk first asks the auth client for the
  \<open>Authorization\<close> header, which may request a refresh of its own: \<open>findMyUser_now\<close> and
  \<open>action_now\<close> are the clock readings of that check, \<open>findMyUser_refresh\<close> and \<open>action_refresh\<close>
  the provider's answers to that refresh, if it is requested. When the header cannot be had
  the call rejects, so a world whose call resolves there is one that no run produces.
\<close>

record world =
  Date_now :: int
  new_Date :: int
  store_now :: int
  refreshAccessToken :: "exn + sdk_token"
  requestAccessToken :: "exn + sdk_token"
  revokeAccessToken :: "exn + payload"
  findMyUser :: "exn + user_response"
  findMyUser_now :: int
  findMyUser_refresh :: "exn + sdk_token"
  usersIdLike :: "exn + payload"
  usersIdRetweets :: "exn + payload"
  action_now :: int
  action_refresh :: "exn + sdk_token"
  updateMany_throws :: "exn option"
  upsert_throws :: "exn option"
  findFirst_throws :: "exn option"
  create_throws :: "exn option"
  count_throws :: "exn option"
  fresh_user_id :: string
  fresh_action_id :: string
  FRONTEND_URL :: "string option"

section \<open>Responses\<close>

datatype action_data = Resolved payload | Rejected exn

record stats =
  totalActions :: nat
  likes :: nat
  retweets :: nat
  successful :: nat
  failed :: nat

record user_view =
  v_id :: string
  v_username :: "string option"
  v_name :: "string option"
  v_profileImgUrl :: "string option"

datatype json_body =
    ErrorBody string
  | ActionBody bool action_data "tokenData option"
  | RevokeBody payload
  | StatsBody user_view stats "tokenData option"

text \<open>
  \<open>res.status(n).json(b)\<close> is \<open>Json n b\<close> (\<open>res.json(b)\<close> alone answers 200);
  \<open>res.redirect\<close> keeps the front-end base and the four query parameters apart, before their
  URL encoding.
\<close>

datatype response =
    Json nat json_body
  | Redirect string "string option" "string option" int string


section \<open>The Token Guard: \<open>withAuth\<close> (lines 77-133)\<close>

text \<open>
  \<open>new Client(authClient)\<close>: the handle wraps the module-level auth client. \<open>Client tok\<close>
  records the token that object holds when the handle is built; a request sent through the
  handle reads the object itself, \<open>authClient\<close> of the state, which holds that same token
  when the handler runs behind the guard.
\<close>

datatype client = Client "sdk_token option"

record locals =
  l_tokenData :: "tokenData option"
  l_twitterClient :: "client option"
  l_twitterId :: "string option"

definition no_locals :: locals where
  "no_locals = \<lparr>l_tokenData = None, l_twitterClient = None, l_twitterId = None\<rparr>"

datatype guard_result = Responded response | Next locals

text \<open>Line 95: \<open>expiresAt && now >= expiresAt\<close>.\<close>

definition token_expired :: "int \<Rightarrow> int option \<Rightarrow> bool" where
  "token_expired now e = (truthy_num e \<and> (case e of None \<Rightarrow> False | Some t \<Rightarrow> now \<ge> t))"

text \<open>Lines 102 and 112: \<open>refreshedTokens.token.refresh_token || refreshToken\<close>.\<close>

definition or_fallback :: "string option \<Rightarrow> string option \<Rightarrow> string option" where
  "or_fallback x y = (if truthy_str x then x else y)"

text \<open>
  \<open>prisma.user.updateMany({where: {twitterId}, data})\<close> (lines 108-116): every row with that
  external id gets the new pair; a field given as \<open>undefined\<close> is left as it was.
\<close>

definition updateMany :: "string \<Rightarrow> sdk_token \<Rightarrow> string option \<Rightarrow> int \<Rightarrow> int \<Rightarrow> user list \<Rightarrow> user list" where
  "updateMany tid t rt ex upd us =
     map (\<lambda>u. if u_twitterId u = tid
              then u\<lparr>u_accessToken := (case access_token t of None \<Rightarrow> u_accessToken u | Some a \<Rightarrow> Some a),
                     u_refreshToken := rt,
                     u_tokenExpiresAt := Some ex,
                     u_updatedAt := upd\<rparr>
              else u) us"

text \<open>
  Lines 96-117, the body of the \<open>if\<close> that refreshes. \<open>authClient.refreshAccessToken()\<close>
  belongs to twitter-api-sdk: the provider's answer is an input, and on success the auth
  client keeps the token it returns. \<open>Inl\<close> is a \<open>throw\<close> that reaches the \<open>catch\<close> of line
  129: the rejected refresh, \<open>BigInt(undefined)\<close> on line 113, or the rejected update.
\<close>

definition refresh_tokens :: "world \<Rightarrow> body \<Rightarrow> locals \<Rightarrow> state \<Rightarrow> (exn + locals) \<times> state" where
  "refresh_tokens w b l s =
     (let s1 = s\<lparr>calls := calls s @ [RefreshAccessToken]\<rparr> in
      case refreshAccessToken w of
        Inl e \<Rightarrow> (Inl e, s1)
      | Inr t \<Rightarrow>
          (let s2 = s1\<lparr>authClient := Some t\<rparr>;
               l1 = l\<lparr>l_tokenData := Some \<lparr>td_accessToken = access_token t,
                                            td_refreshToken = or_fallback (refresh_token t) (refreshToken b),
                                            td_expiresAt = expires_at t\<rparr>\<rparr>
           in if truthy_str (twitterId b) then
                (case expires_at t of
                   None \<Rightarrow> (Inl ''TypeError: Cannot convert undefined to a BigInt'', s2)
                 | Some ex \<Rightarrow>
                     (let s3 = s2\<lparr>calls := calls s2 @ [UserUpdateMany (str_value (twitterId b))]\<rparr> in
                      case updateMany_throws w of
                        Some e \<Rightarrow> (Inl e, s3)
                      | None \<Rightarrow>
                          (Inr l1, s3\<lparr>users := updateMany (str_value (twitterId b)) t
                                           (or_fallback (refresh_token t) (refreshToken b))
                                           ex (new_Date w) (users s3)\<rparr>)))
              else (Inr l1, s2)))"

definition withAuth :: "world \<Rightarrow> request \<Rightarrow> state \<Rightarrow> guard_result \<times> state" where
  "withAuth w req s =
     (let b = req_body req in
      if \<not> truthy_str (accessToken b) \<or> \<not> truthy_str (refreshToken b) then
        (Responded (Json 401 (ErrorBody ''Authentication required'')), s)
      else
        (let s1 = s\<lparr>authClient := Some \<lparr>access_token = accessToken b,
                                          refresh_token = refreshToken b,
                                          token_type = Some ''bearer'',
                                          expires_at = expiresAt b\<rparr>\<rparr>;
             now = Date_now w;
             (r, s2) = (if token_expired now (expiresAt b)
                        then refresh_tokens w b no_locals s1
                        else (Inr no_locals, s1))
         in case r of
              Inl e \<Rightarrow> (Responded (Json 401 (ErrorBody ''Authentication failed'')), s2)
            | Inr l \<Rightarrow>
                (let l1 = l\<lparr>l_twitterClient := Some (Client (authClient s2))\<rparr>;
                     l2 = (if truthy_str (twitterId b) then l1\<lparr>l_twitterId := twitterId b\<rparr> else l1)
                 in (Next l2, s2))))"

text \<open>
  \<open>router.post(path, withAuth, handler)\<close>: the handler runs only when the guard calls
  \<open>next()\<close>, on the state the guard left and with the \<open>res.locals\<close> it filled.
\<close>

definition guarded ::
  "(world \<Rightarrow> request \<Rightarrow> locals \<Rightarrow> state \<Rightarrow> response \<times> state) \<Rightarrow> world \<Rightarrow> request \<Rightarrow> state \<Rightarrow> response \<times> state" where
  "guarded h w req s =
     (case withAuth w req s of
        (Responded r, s1) \<Rightarrow> (r, s1)
      | (Next l, s1) \<Rightarrow> h w req l s1)"

section \<open>Requests sent through the client handle\<close>

text \<open>
  twitter-api-sdk, \<open>OAuth2User.isAccessTokenExpired\<close>: a token with a falsy expiry counts as
  expired; otherwise it is expired when it has a refresh token and the expiry is within one
  second of the clock.
\<close>

definition isAccessTokenExpired :: "int \<Rightarrow> sdk_token \<Rightarrow> bool" where
  "isAccessTokenExpired now t =
     (case expires_at t of
        None \<Rightarrow> True
      | Some e \<Rightarrow> e = 0 \<or> (truthy_str (refresh_token t) \<and> e \<le> now + 1000))"

text \<open>
  \<open>OAuth2User.getAuthHeader\<close>, which the SDK awaits before each request of the handle: it throws
  without an access token, refreshes an expired token first (\<open>refreshAccessToken\<close> throws
  before any request when there is no refresh token, and keeps the token it obtains), and
  answers the access token then held. The result is the header or the throw, the token the
  auth client holds afterwards, and the calls made.
\<close>

definition getAuthHeader ::
  "int \<Rightarrow> exn + sdk_token \<Rightarrow> sdk_token option \<Rightarrow> (exn + string option) \<times> sdk_token option \<times> call list" where
  "getAuthHeader now refreshed tok =
     (case tok of
        None \<Rightarrow> (Inl ''access_token is required'', tok, [])
      | Some t \<Rightarrow>
          if \<not> truthy_str (access_token t) then (Inl ''access_token is required'', tok, [])
          else if isAccessTokenExpired now t then
            (if \<not> truthy_str (refresh_token t) then (Inl ''refresh_token is required'', tok, [])
             else case refreshed of
                    Inl e \<Rightarrow> (Inl e, tok, [RefreshAccessToken])
                  | Inr t' \<Rightarrow> (Inr (access_token t'), Some t', [RefreshAccessToken]))
          else (Inr (access_token t), tok, []))"

text \<open>
  One request of the handle, as the state sees it: the header is obtained from the
  module-level auth client, and the request leaves with it unless obtaining it threw.
\<close>

definition send :: "int \<Rightarrow> exn + sdk_token \<Rightarrow> (string option \<Rightarrow> call) \<Rightarrow> state \<Rightarrow> state" where
  "send now refreshed request s =
     (case getAuthHeader now refreshed (authClient s) of
        (header, tok, cs) \<Rightarrow>
          s\<lparr>authClient := tok,
            calls := calls s @ cs @ (case header of Inl e \<Rightarrow> [] | Inr bearer \<Rightarrow> [request bearer])\<rparr>)"

section \<open>The action handlers (lines 250-362)\<close>

text \<open>\<open>prisma.user.findFirst({where: {twitterId: userId}})\<close>.\<close>

definition findFirst :: "string \<Rightarrow> user list \<Rightarrow> user option" where
  "findFirst tid us = find (\<lambda>u. u_twitterId u = tid) us"

text \<open>
  Lines 276-291 and 333-348, which differ in the action name only: the row is written when
  \<open>res.locals.twitterId\<close> is set and the store holds a user with the resolved external id.
  \<open>Inl\<close> is a rejected store call, which reaches the handler's outer \<open>catch\<close>.
\<close>

definition log_action ::
  "world \<Rightarrow> locals \<Rightarrow> string \<Rightarrow> string \<Rightarrow> string \<Rightarrow> bool \<Rightarrow> state \<Rightarrow> (exn + unit) \<times> state" where
  "log_action w l userId tid act success s =
     (if truthy_str (l_twitterId l) then
        (let s1 = s\<lparr>calls := calls s @ [UserFindFirst userId]\<rparr> in
         case findFirst_throws w of
           Some e \<Rightarrow> (Inl e, s1)
         | None \<Rightarrow>
             (case findFirst userId (users s1) of
                None \<Rightarrow> (Inr (), s1)
              | Some u \<Rightarrow>
                  (let s2 = s1\<lparr>calls := calls s1 @ [UserActionCreate]\<rparr> in
                   case create_throws w of
                     Some e \<Rightarrow> (Inl e, s2)
                   | None \<Rightarrow>
                       (Inr (), s2\<lparr>userActions := userActions s2 @
                                      [\<lparr>a_id = fresh_action_id w, a_userId = u_id u, a_tweetId = tid,
                                        a_action = act, a_success = success,
                                        a_createdAt = store_now w\<rparr>]\<rparr>))))
      else (Inr (), s))"

definition like_handler :: "world \<Rightarrow> request \<Rightarrow> locals \<Rightarrow> state \<Rightarrow> response \<times> state" where
  "like_handler w req l s =
     (if \<not> truthy_str (tweetId (req_body req)) then
        (Json 400 (ErrorBody ''Tweet ID is required''), s)
      else
        (case l_twitterClient l of
           None \<Rightarrow> (Json 500 (ErrorBody ''Failed to like tweet''), s)
         | Some c \<Rightarrow>
             (let s1 = send (findMyUser_now w) (findMyUser_refresh w) FindMyUser s in
              case findMyUser w of
                Inl e \<Rightarrow> (Json 500 (ErrorBody ''Failed to like tweet''), s1)
              | Inr userResponse \<Rightarrow>
                  (case ur_data userResponse of
                     None \<Rightarrow> (Json 500 (ErrorBody ''Failed to like tweet''), s1)
                   | Some d \<Rightarrow>
                       (let userId = tw_id d;
                            tid = str_value (tweetId (req_body req));
                            s2 = send (action_now w) (action_refresh w)
                                   (\<lambda>bearer. UsersIdLike bearer userId tid) s1;
                            (success, likeResponse) =
                               (case usersIdLike w of
                                  Inr p \<Rightarrow> (True, Resolved p)
                                | Inl likeError \<Rightarrow> (False, Rejected likeError))
                        in case log_action w l userId tid ''like'' success s2 of
                             (Inl e, s3) \<Rightarrow> (Json 500 (ErrorBody ''Failed to like tweet''), s3)
                           | (Inr u, s3) \<Rightarrow>
                               (Json 200 (ActionBody success likeResponse (l_tokenData l)), s3))))))"

definition retweet_handler :: "world \<Rightarrow> request \<Rightarrow> locals \<Rightarrow> state \<Rightarrow> response \<times> state" where
  "retweet_handler w req l s =
     (if \<not> truthy_str (tweetId (req_body req)) then
        (Json 400 (ErrorBody ''Tweet ID is required''), s)
      else
        (case l_twitterClient l of
           None \<Rightarrow> (Json 500 (ErrorBody ''Failed to retweet''), s)
         | Some c \<Rightarrow>
             (let s1 = send (findMyUser_now w) (findMyUser_refresh w) FindMyUser s in
              case findMyUser w of
                Inl e \<Rightarrow> (Json 500 (ErrorBody ''Failed to retweet''), s1)
              | Inr userResponse \<Rightarrow>
                  (case ur_data userResponse of
                     None \<Rightarrow> (Json 500 (ErrorBody ''Failed to retweet''), s1)
                   | Some d \<Rightarrow>
                       (let userId = tw_id d;
                            tid = str_value (tweetId (req_body req));
                            s2 = send (action_now w) (action_refresh w)
                                   (\<lambda>bearer. UsersIdRetweets bearer userId tid) s1;
                            (success, retweetResponse) =
                               (case usersIdRetweets w of
                                  Inr p \<Rightarrow> (True, Resolved p)
                                | Inl retweetError \<Rightarrow> (False, Rejected retweetError))
                        in case log_action w l userId tid ''retweet'' success s2 of
                             (Inl e, s3) \<Rightarrow> (Json 500 (ErrorBody ''Failed to retweet''), s3)
                           | (Inr u, s3) \<Rightarrow>
                               (Json 200 (ActionBody success retweetResponse (l_tokenData l)), s3))))))"

section \<open>The OAuth callback and revoke (lines 152-229)\<close>

definition STATE :: string where
  "STATE = ''twitter-auth-state''"

text \<open>A column given as \<open>undefined\<close> in an update keeps its value.\<close>

definition keep :: "'a option \<Rightarrow> 'a option \<Rightarrow> 'a option" where
  "keep new old = (case new of None \<Rightarrow> old | Some v \<Rightarrow> Some v)"

text \<open>
  \<open>prisma.user.upsert\<close> (lines 183-203), keyed by the external id: the row that has it is
  updated, otherwise a row is created with the id and the two timestamps the store fills in.
\<close>

definition upsert :: "world \<Rightarrow> twitterUserData \<Rightarrow> tokenData \<Rightarrow> int \<Rightarrow> user list \<Rightarrow> user list" where
  "upsert w d td ex us =
     (if list_ex (\<lambda>u. u_twitterId u = tw_id d) us then
        map (\<lambda>u. if u_twitterId u = tw_id d
                 then u\<lparr>u_username := keep (tw_username d) (u_username u),
                        u_name := keep (tw_name d) (u_name u),
                        u_profileImgUrl := keep (tw_profile_image_url d) (u_profileImgUrl u),
                        u_accessToken := keep (td_accessToken td) (u_accessToken u),
                        u_refreshToken := keep (td_refreshToken td) (u_refreshToken u),
                        u_tokenExpiresAt := Some ex,
                        u_updatedAt := new_Date w\<rparr>
                 else u) us
      else us @ [\<lparr>u_id = fresh_user_id w, u_twitterId = tw_id d, u_username = tw_username d,
                  u_name = tw_name d, u_profileImgUrl = tw_profile_image_url d,
                  u_accessToken = td_accessToken td, u_refreshToken = td_refreshToken td,
                  u_tokenExpiresAt = Some ex, u_createdAt = store_now w, u_updatedAt = store_now w\<rparr>])"

text \<open>Lines 181-204: nothing is stored when the provider's answer has no \<open>data\<close>.\<close>

definition store_user :: "world \<Rightarrow> user_response \<Rightarrow> tokenData \<Rightarrow> state \<Rightarrow> (exn + unit) \<times> state" where
  "store_user w twitterUser td s =
     (case ur_data twitterUser of
        None \<Rightarrow> (Inr (), s)
      | Some d \<Rightarrow>
          (case td_expiresAt td of
             None \<Rightarrow> (Inl ''TypeError: Cannot convert undefined to a BigInt'', s)
           | Some ex \<Rightarrow>
               (let s1 = s\<lparr>calls := calls s @ [UserUpsert (tw_id d)]\<rparr> in
                case upsert_throws w of
                  Some e \<Rightarrow> (Inl e, s1)
                | None \<Rightarrow> (Inr (), s1\<lparr>users := upsert w d td ex (users s1)\<rparr>))))"

text \<open>
  \<open>authClient.requestAccessToken(code)\<close> belongs to twitter-api-sdk as well: its answer is an
  input and the auth client keeps the token it returns. \<open>tempClient\<close> wraps an auth client of
  its own, built on that token (lines 170-176): the header for its \<open>findMyUser\<close> comes from
  there, and a refresh made for it changes neither \<open>authClient\<close> nor \<open>tokenData\<close>. Line 210
  reads \<open>tokenData.expiresAt.toString()\<close>, which throws when the expiry is \<open>undefined\<close>.
\<close>

definition callback_handler :: "world \<Rightarrow> request \<Rightarrow> state \<Rightarrow> response \<times> state" where
  "callback_handler w req s =
     (if q_state (req_query req) \<noteq> Some STATE then
        (Json 400 (ErrorBody ''Invalid state parameter''), s)
      else
        (let s1 = s\<lparr>calls := calls s @ [RequestAccessToken (q_code (req_query req))]\<rparr> in
         case requestAccessToken w of
           Inl e \<Rightarrow> (Json 500 (ErrorBody ''Authentication failed''), s1)
         | Inr t \<Rightarrow>
             (let s2 = s1\<lparr>authClient := Some t\<rparr>;
                  td = \<lparr>td_accessToken = access_token t, td_refreshToken = refresh_token t,
                        td_expiresAt = expires_at t\<rparr>;
                  s3 = (case getAuthHeader (findMyUser_now w) (findMyUser_refresh w) (Some t) of
                          (header, tok, cs) \<Rightarrow>
                            s2\<lparr>calls := calls s2 @ cs @
                                 (case header of Inl e \<Rightarrow> [] | Inr bearer \<Rightarrow> [FindMyUser bearer])\<rparr>)
              in case findMyUser w of
                   Inl e \<Rightarrow> (Json 500 (ErrorBody ''Authentication failed''), s3)
                 | Inr twitterUser \<Rightarrow>
                     (case store_user w twitterUser td s3 of
                        (Inl e, s4) \<Rightarrow> (Json 500 (ErrorBody ''Authentication failed''), s4)
                      | (Inr u, s4) \<Rightarrow>
                          (case td_expiresAt td of
                             None \<Rightarrow> (Json 500 (ErrorBody ''Authentication failed''), s4)
                           | Some ex \<Rightarrow>
                               (Redirect
                                  (case FRONTEND_URL w of None \<Rightarrow> ''http://localhost:3001'' | Some f \<Rightarrow> (if f = [] then ''http://localhost:3001'' else f))
                                  (td_accessToken td) (td_refreshToken td) ex
                                  (case ur_data twitterUser of None \<Rightarrow> [] | Some d \<Rightarrow> tw_id d),
                                s4))))))"

definition revoke_handler :: "world \<Rightarrow> request \<Rightarrow> locals \<Rightarrow> state \<Rightarrow> response \<times> state" where
  "revoke_handler w req l s =
     (let s1 = s\<lparr>calls := calls s @ [RevokeAccessToken]\<rparr> in
      case revokeAccessToken w of
        Inl e \<Rightarrow> (Json 500 (ErrorBody ''Failed to revoke token''), s1)
      | Inr r \<Rightarrow> (Json 200 (RevokeBody r), s1))"

section \<open>The statistics handler (lines 365-421)\<close>

text \<open>\<open>prisma.userAction.count({where})\<close>.\<close>

definition count :: "(userAction \<Rightarrow> bool) \<Rightarrow> userAction list \<Rightarrow> nat" where
  "count P as = length (filter P as)"

definition stats_handler :: "world \<Rightarrow> request \<Rightarrow> locals \<Rightarrow> state \<Rightarrow> response \<times> state" where
  "stats_handler w req l s =
     (case l_twitterClient l of
        None \<Rightarrow> (Json 500 (ErrorBody ''Failed to get user stats''), s)
      | Some c \<Rightarrow>
          (let s1 = send (findMyUser_now w) (findMyUser_refresh w) FindMyUser s in
           case findMyUser w of
             Inl e \<Rightarrow> (Json 500 (ErrorBody ''Failed to get user stats''), s1)
           | Inr userResponse \<Rightarrow>
               (case ur_data userResponse of
                  None \<Rightarrow> (Json 500 (ErrorBody ''Failed to get user stats''), s1)
                | Some d \<Rightarrow>
                    (let userId = tw_id d;
                         s2 = s1\<lparr>calls := calls s1 @ [UserFindFirst userId]\<rparr>
                     in case findFirst_throws w of
                          Some e \<Rightarrow> (Json 500 (ErrorBody ''Failed to get user stats''), s2)
                        | None \<Rightarrow>
                            (case findFirst userId (users s2) of
                               None \<Rightarrow> (Json 404 (ErrorBody ''User not found in database''), s2)
                             | Some u \<Rightarrow>
                                 (let s3 = s2\<lparr>calls := calls s2 @ [UserActionCount (u_id u)]\<rparr> in
                                  case count_throws w of
                                    Some e \<Rightarrow> (Json 500 (ErrorBody ''Failed to get user stats''), s3)
                                  | None \<Rightarrow>
                                      (Json 200
                                         (StatsBody
                                            \<lparr>v_id = u_twitterId u, v_username = u_username u,
                                              v_name = u_name u, v_profileImgUrl = u_profileImgUrl u\<rparr>
                                            \<lparr>totalActions = count (\<lambda>a. a_userId a = u_id u) (userActions s3),
                                              likes = count (\<lambda>a. a_userId a = u_id u \<and> a_action a = ''like'') (userActions s3),
                                              retweets = count (\<lambda>a. a_userId a = u_id u \<and> a_action a = ''retweet'') (userActions s3),
                                              successful = count (\<lambda>a. a_userId a = u_id u \<and> a_success a = True) (userActions s3),
                                              failed = count (\<lambda>a. a_userId a = u_id u \<and> a_success a = False) (userActions s3)\<rparr>
                                            (l_tokenData l)),
                                       s3)))))))"

text \<open>
  The states the routes can leave behind, from an empty action table: every route of the
  model is a step.
\<close>

inductive reachable :: "state \<Rightarrow> bool" where
  start: "userActions s = [] \<Longrightarrow> reachable s"
| like: "reachable s \<Longrightarrow> reachable (snd (guarded like_handler w req s))"
| retweet: "reachable s \<Longrightarrow> reachable (snd (guarded retweet_handler w req s))"
| revoke: "reachable s \<Longrightarrow> reachable (snd (guarded revoke_handler w req s))"
| stats: "reachable s \<Longrightarrow> reachable (snd (guarded stats_handler w req s))"
| callback: "reachable s \<Longrightarrow> reachable (snd (callback_handler w req s))"

section \<open>Concrete requests\<close>

text \<open>
  One stored user, one request whose token expired at 1000 while the clock reads 2000, and a
  world in which the provider refreshes without rotating the refresh token, rejects the like
  and accepts the retweet. The variations below are record updates of these.
\<close>

definition body0 :: body where
  "body0 = \<lparr>accessToken = Some ''at0'', refreshToken = Some ''rt0'', expiresAt = Some 1000,
            twitterId = Some ''42'', tweetId = Some ''7''\<rparr>"

definition req0 :: request where
  "req0 = \<lparr>req_body = body0, req_query = \<lparr>q_code = Some ''c0'', q_state = Some ''WRONG''\<rparr>\<rparr>"

definition alice :: user where
  "alice = \<lparr>u_id = ''u1'', u_twitterId = ''42'', u_username = Some ''alice'', u_name = None,
            u_profileImgUrl = None, u_accessToken = Some ''at_old'', u_refreshToken = Some ''rt_old'',
            u_tokenExpiresAt = Some 1000, u_createdAt = 0, u_updatedAt = 0\<rparr>"

definition state0 :: state where
  "state0 = \<lparr>users = [alice], userActions = [], authClient = None, calls = []\<rparr>"

definition token1 :: sdk_token where
  "token1 = \<lparr>access_token = Some ''at1'', refresh_token = None, token_type = Some ''bearer'',
             expires_at = Some 9000\<rparr>"

definition me0 :: twitterUserData where
  "me0 = \<lparr>tw_id = ''42'', tw_username = Some ''alice'', tw_name = None, tw_profile_image_url = None\<rparr>"

definition world0 :: world where
  "world0 = \<lparr>Date_now = 2000, new_Date = 2001, store_now = 2004,
             refreshAccessToken = Inr token1,
             requestAccessToken = Inr token1, revokeAccessToken = Inr ''revoked'',
             findMyUser = Inr \<lparr>ur_data = Some me0\<rparr>,
             findMyUser_now = 2002, findMyUser_refresh = Inr token1,
             usersIdLike = Inl ''rate limited'', usersIdRetweets = Inr ''done'',
             action_now = 2003, action_refresh = Inr token1,
             updateMany_throws = None, upsert_throws = None, findFirst_throws = None,
             create_throws = None, count_throws = None, fresh_user_id = ''u2'',
             fresh_action_id = ''a1'', FRONTEND_URL = None\<rparr>"

text \<open>
  The request with the expiry set to 0, the request without a twitterId, and the world whose
  store rejects the update.
\<close>

definition req_zero :: request where
  "req_zero = req0\<lparr>req_body := body0\<lparr>expiresAt := Some 0\<rparr>\<rparr>"

definition req_anonymous :: request where
  "req_anonymous = req0\<lparr>req_body := body0\<lparr>twitterId := None\<rparr>\<rparr>"

definition world_db_down :: world where
  "world_db_down = world0\<lparr>updateMany_throws := Some ''db down''\<rparr>"

text \<open>What the guard leaves in \<open>res.locals\<close> for \<open>req0\<close> in \<open>world0\<close>, and the row it rewrites.\<close>

definition locals0 :: locals where
  "locals0 = \<lparr>l_tokenData = Some \<lparr>td_accessToken = Some ''at1'', td_refreshToken = Some ''rt0'',
                                      td_expiresAt = Some 9000\<rparr>,
                l_twitterClient = Some (Client (Some token1)),
                l_twitterId = Some ''42''\<rparr>"

definition alice_refreshed :: user where
  "alice_refreshed = alice\<lparr>u_accessToken := Some ''at1'', u_refreshToken := Some ''rt0'',
                            u_tokenExpiresAt := Some 9000, u_updatedAt := 2001\<rparr>"

text \<open>A world whose store rejects the insert, and the states after a like and then a retweet.\<close>

definition world_create_fails :: world where
  "world_create_fails = world0\<lparr>create_throws := Some ''db down''\<rparr>"

definition state_liked :: state where
  "state_liked = snd (guarded like_handler world0 req0 state0)"

definition state_both :: state where
  "state_both = snd (guarded retweet_handler (world0\<lparr>fresh_action_id := ''a2''\<rparr>) req0 state_liked)"

section \<open>Unfolding the model\<close>

lemmas model_defs = withAuth_def refresh_tokens_def guarded_def like_handler_def retweet_handler_def
  log_action_def revoke_handler_def stats_handler_def callback_handler_def store_user_def
  updateMany_def upsert_def findFirst_def count_def keep_def or_fallback_def token_expired_def
  truthy_str_def truthy_num_def str_value_def no_locals_def STATE_def Let_def
  isAccessTokenExpired_def getAuthHeader_def send_def

lemmas example_defs = world0_def req0_def body0_def state0_def alice_def token1_def
  req_zero_def req_anonymous_def world_db_down_def locals0_def alice_refreshed_def me0_def
  world_create_fails_def state_liked_def state_both_def

lemma truthy_str_None [simp]: "\<not> truthy_str None"
  by (simp add: truthy_str_def)

lemma send_users [simp]: "users (send now refreshed request s) = users s"
  by (simp add: send_def split: prod.splits)

lemma send_userActions [simp]: "userActions (send now refreshed request s) = userActions s"
  by (simp add: send_def split: prod.splits)

lemma withAuth_userActions: "userActions (snd (withAuth w req s)) = userActions s"
  by (simp add: withAuth_def refresh_tokens_def Let_def split: sum.splits option.splits prod.splits)

lemma findFirst_updateMany:
  "map_option u_id (findFirst tid (updateMany tid' t rt ex upd us)) = map_option u_id (findFirst tid us)"
  by (induction us) (auto simp: findFirst_def updateMany_def)

lemma withAuth_findFirst:
  "map_option u_id (findFirst tid (users (snd (withAuth w req s)))) = map_option u_id (findFirst tid (users s))"
  by (auto simp: withAuth_def refresh_tokens_def Let_def findFirst_updateMany
           split: sum.splits option.splits prod.splits)

lemma withAuth_locals:
  "fst (withAuth w req s) = Next l \<Longrightarrow>
     l_twitterId l = (if truthy_str (twitterId (req_body req)) then twitterId (req_body req) else None)
     \<and> l_twitterClient l \<noteq> None"
  by (auto simp: withAuth_def refresh_tokens_def Let_def no_locals_def
           split: sum.splits option.splits prod.splits if_splits)

lemma withAuth_handle:
  "fst (withAuth w req s) = Next l \<Longrightarrow>
     l_twitterClient l = Some (Client (authClient (snd (withAuth w req s))))"
  by (auto simp: withAuth_def refresh_tokens_def Let_def no_locals_def
           split: sum.splits option.splits prod.splits if_splits)

lemma guarded_Next:
  "fst (withAuth w req s) = Next l \<Longrightarrow> guarded h w req s = h w req l (snd (withAuth w req s))"
  by (cases "withAuth w req s") (simp add: guarded_def)

lemma send_calls: "\<exists>cs. calls (send now r mk s) = calls s @ cs"
  by (simp add: send_def split: prod.splits)

lemma log_action_calls: "\<exists>cs. calls (snd (log_action w l u t a b s)) = calls s @ cs"
  by (auto simp: log_action_def Let_def split: option.splits)

lemma like_handler_state:
  assumes "truthy_str (tweetId (req_body req))" and "l_twitterClient l = Some c"
  shows "snd (like_handler w req l s) =
           (case findMyUser w of
              Inl e \<Rightarrow> send (findMyUser_now w) (findMyUser_refresh w) FindMyUser s
            | Inr ur \<Rightarrow>
                (case ur_data ur of
                   None \<Rightarrow> send (findMyUser_now w) (findMyUser_refresh w) FindMyUser s
                 | Some d \<Rightarrow>
                     snd (log_action w l (tw_id d) (str_value (tweetId (req_body req))) ''like''
                            (\<not> isl (usersIdLike w))
                            (send (action_now w) (action_refresh w)
                               (\<lambda>bearer. UsersIdLike bearer (tw_id d) (str_value (tweetId (req_body req))))
                               (send (findMyUser_now w) (findMyUser_refresh w) FindMyUser s)))))"
  using assms
  by (auto simp: like_handler_def Let_def split: sum.splits option.splits prod.splits)

lemma retweet_handler_state:
  assumes "truthy_str (tweetId (req_body req))" and "l_twitterClient l = Some c"
  shows "snd (retweet_handler w req l s) =
           (case findMyUser w of
              Inl e \<Rightarrow> send (findMyUser_now w) (findMyUser_refresh w) FindMyUser s
            | Inr ur \<Rightarrow>
                (case ur_data ur of
                   None \<Rightarrow> send (findMyUser_now w) (findMyUser_refresh w) FindMyUser s
                 | Some d \<Rightarrow>
                     snd (log_action w l (tw_id d) (str_value (tweetId (req_body req))) ''retweet''
                            (\<not> isl (usersIdRetweets w))
                            (send (action_now w) (action_refresh w)
                               (\<lambda>bearer. UsersIdRetweets bearer (tw_id d) (str_value (tweetId (req_body req))))
                               (send (findMyUser_now w) (findMyUser_refresh w) FindMyUser s)))))"
  using assms
  by (auto simp: retweet_handler_def Let_def split: sum.splits option.splits prod.splits)

lemma like_handler_calls:
  assumes "truthy_str (tweetId (req_body req))" and "l_twitterClient l = Some c"
  shows "\<exists>cs. calls (snd (like_handler w req l s)) =
           calls (send (findMyUser_now w) (findMyUser_refresh w) FindMyUser s) @ cs"
proof -
  have "\<exists>cs. calls (snd (log_action w l u t a b (send now r mk s'))) = calls s' @ cs" for u t a b now r mk s'
    using log_action_calls [of w l u t a b "send now r mk s'"] send_calls [of now r mk s']
    by (metis append.assoc)
  then show ?thesis
    unfolding like_handler_state [OF assms]
    by (auto split: sum.splits option.splits)
qed

lemma retweet_handler_calls:
  assumes "truthy_str (tweetId (req_body req))" and "l_twitterClient l = Some c"
  shows "\<exists>cs. calls (snd (retweet_handler w req l s)) =
           calls (send (findMyUser_now w) (findMyUser_refresh w) FindMyUser s) @ cs"
proof -
  have "\<exists>cs. calls (snd (log_action w l u t a b (send now r mk s'))) = calls s' @ cs" for u t a b now r mk s'
    using log_action_calls [of w l u t a b "send now r mk s'"] send_calls [of now r mk s']
    by (metis append.assoc)
  then show ?thesis
    unfolding retweet_handler_state [OF assms]
    by (auto split: sum.splits option.splits)
qed

section \<open>The guard\<close>

text \<open>
  C4. A request whose body has no access token or no refresh token (absent or empty) is
  answered 401 "Authentication required" by the guard, and the state it leaves is the state
  it found: no call was logged, no row touched, and no handler behind the guard ran.
\<close>

theorem withAuth_missing_token:
  assumes "\<not> truthy_str (accessToken (req_body req)) \<or> \<not> truthy_str (refreshToken (req_body req))"
  shows "withAuth w req s = (Responded (Json 401 (ErrorBody ''Authentication required'')), s)
         \<and> guarded h w req s = (Json 401 (ErrorBody ''Authentication required''), s)"
  using assms by (auto simp: withAuth_def guarded_def Let_def)

theorem withAuth_missing_token_witness:
  "\<not> truthy_str (refreshToken (req_body (req0\<lparr>req_body := body0\<lparr>refreshToken := Some []\<rparr>\<rparr>)))
   \<and> withAuth world0 (req0\<lparr>req_body := body0\<lparr>refreshToken := Some []\<rparr>\<rparr>) state0 =
         (Responded (Json 401 (ErrorBody ''Authentication required'')), state0)
   \<and> guarded like_handler world0 (req0\<lparr>req_body := body0\<lparr>refreshToken := Some []\<rparr>\<rparr>) state0 =
         (Json 401 (ErrorBody ''Authentication required''), state0)"
  using withAuth_missing_token [of "req0\<lparr>req_body := body0\<lparr>refreshToken := Some []\<rparr>\<rparr>" world0 state0 like_handler]
  by (simp add: truthy_str_def example_defs)

text \<open>
  C8, as the claim states it, fails for the downstream call: with both tokens present and an
  expiry of exactly 0 the guard makes no refresh, but the first request the like handler
  sends through the handle is preceded by a refresh, made by the SDK because the expiry it
  finds is falsy, and the who-am-I and like requests carry the refreshed access token
  \<open>at1\<close>, not the supplied \<open>at0\<close>.
\<close>

theorem zero_expiry_refreshed_downstream:
  "truthy_str (accessToken (req_body req_zero)) \<and> truthy_str (refreshToken (req_body req_zero))
   \<and> accessToken (req_body req_zero) = Some ''at0''
   \<and> expiresAt (req_body req_zero) = Some 0
   \<and> calls (snd (withAuth world0 req_zero state0)) = []
   \<and> findMyUser_refresh world0 = Inr token1
   \<and> access_token token1 = Some ''at1''
   \<and> calls (snd (guarded like_handler world0 req_zero state0)) =
        [RefreshAccessToken, FindMyUser (Some ''at1''), UsersIdLike (Some ''at1'') ''42'' ''7'',
         UserFindFirst ''42'', UserActionCreate]"
  by (simp add: model_defs example_defs)

text \<open>
  C8, amended: with both tokens present and an expiry of exactly 0, the guard treats the
  expiry like an absent one: it makes no call at all (so no refresh), records no replacement
  pair, and builds the client handle on the access token the caller supplied; the same request
  without an expiry has the same outcome, the expiry stored in the auth client aside. The
  downstream call does not go out with that token as it stands: before the first request of
  the handle the SDK, finding a falsy expiry, attempts a refresh, and when that refresh
  resolves, the refreshed access token is the one the request carries.
\<close>

theorem withAuth_zero_expiry:
  assumes "truthy_str (accessToken (req_body req))" and "truthy_str (refreshToken (req_body req))"
    and "expiresAt (req_body req) = Some 0"
  shows "withAuth w req s =
           (Next \<lparr>l_tokenData = None,
                  l_twitterClient = Some (Client (Some \<lparr>access_token = accessToken (req_body req),
                                                        refresh_token = refreshToken (req_body req),
                                                        token_type = Some ''bearer'',
                                                        expires_at = Some 0\<rparr>)),
                  l_twitterId = (if truthy_str (twitterId (req_body req)) then twitterId (req_body req) else None)\<rparr>,
            s\<lparr>authClient := Some \<lparr>access_token = accessToken (req_body req),
                                   refresh_token = refreshToken (req_body req),
                                   token_type = Some ''bearer'',
                                   expires_at = Some 0\<rparr>\<rparr>)
         \<and> withAuth w (req\<lparr>req_body := (req_body req)\<lparr>expiresAt := None\<rparr>\<rparr>) s =
           (Next \<lparr>l_tokenData = None,
                  l_twitterClient = Some (Client (Some \<lparr>access_token = accessToken (req_body req),
                                                        refresh_token = refreshToken (req_body req),
                                                        token_type = Some ''bearer'',
                                                        expires_at = None\<rparr>)),
                  l_twitterId = (if truthy_str (twitterId (req_body req)) then twitterId (req_body req) else None)\<rparr>,
            s\<lparr>authClient := Some \<lparr>access_token = accessToken (req_body req),
                                   refresh_token = refreshToken (req_body req),
                                   token_type = Some ''bearer'',
                                   expires_at = None\<rparr>\<rparr>)
         \<and> getAuthHeader now refreshed (authClient (snd (withAuth w req s))) =
             (case refreshed of
                Inl e \<Rightarrow> (Inl e, authClient (snd (withAuth w req s)), [RefreshAccessToken])
              | Inr t \<Rightarrow> (Inr (access_token t), Some t, [RefreshAccessToken]))
         \<and> (truthy_str (tweetId (req_body req)) \<longrightarrow>
               (\<exists>cs. calls (snd (guarded like_handler w req s)) = calls s @ RefreshAccessToken # cs)
             \<and> (\<exists>cs. calls (snd (guarded retweet_handler w req s)) = calls s @ RefreshAccessToken # cs))
         \<and> (\<forall>t. truthy_str (tweetId (req_body req)) \<and> findMyUser_refresh w = Inr t \<longrightarrow>
               (\<exists>cs. calls (snd (guarded like_handler w req s)) =
                       calls s @ RefreshAccessToken # FindMyUser (access_token t) # cs)
             \<and> (\<exists>cs. calls (snd (guarded retweet_handler w req s)) =
                       calls s @ RefreshAccessToken # FindMyUser (access_token t) # cs))"
proof -
  let ?tok = "\<lparr>access_token = accessToken (req_body req), refresh_token = refreshToken (req_body req),
               token_type = Some ''bearer'', expires_at = Some 0\<rparr>"
  let ?l = "\<lparr>l_tokenData = None, l_twitterClient = Some (Client (Some ?tok)),
             l_twitterId = (if truthy_str (twitterId (req_body req)) then twitterId (req_body req) else None)\<rparr>"
  let ?s1 = "s\<lparr>authClient := Some ?tok\<rparr>"
  have guard: "withAuth w req s = (Next ?l, ?s1)"
    using assms by (simp add: withAuth_def Let_def token_expired_def truthy_num_def no_locals_def)
  have absent: "withAuth w (req\<lparr>req_body := (req_body req)\<lparr>expiresAt := None\<rparr>\<rparr>) s =
           (Next \<lparr>l_tokenData = None,
                  l_twitterClient = Some (Client (Some \<lparr>access_token = accessToken (req_body req),
                                                        refresh_token = refreshToken (req_body req),
                                                        token_type = Some ''bearer'',
                                                        expires_at = None\<rparr>)),
                  l_twitterId = (if truthy_str (twitterId (req_body req)) then twitterId (req_body req) else None)\<rparr>,
            s\<lparr>authClient := Some \<lparr>access_token = accessToken (req_body req),
                                   refresh_token = refreshToken (req_body req),
                                   token_type = Some ''bearer'',
                                   expires_at = None\<rparr>\<rparr>)"
    using assms by (simp add: withAuth_def Let_def token_expired_def truthy_num_def no_locals_def)
  have header: "getAuthHeader n r (Some ?tok) =
             (case r of Inl e \<Rightarrow> (Inl e, Some ?tok, [RefreshAccessToken])
                      | Inr t \<Rightarrow> (Inr (access_token t), Some t, [RefreshAccessToken]))" for n r
    using assms(1,2) by (simp add: getAuthHeader_def isAccessTokenExpired_def split: sum.splits)
  have first: "calls (send n r request ?s1) =
             calls s @ RefreshAccessToken # (case r of Inl e \<Rightarrow> [] | Inr t \<Rightarrow> [request (access_token t)])" for n r request
    by (simp add: send_def header split: sum.splits)
  have passes: "fst (withAuth w req s) = Next ?l" and left: "snd (withAuth w req s) = ?s1"
    using guard by simp_all
  have handle: "l_twitterClient ?l = Some (Client (Some ?tok))"
    by simp
  have routes: "(\<exists>cs. calls (snd (guarded like_handler w req s)) =
                   calls (send (findMyUser_now w) (findMyUser_refresh w) FindMyUser ?s1) @ cs)
              \<and> (\<exists>cs. calls (snd (guarded retweet_handler w req s)) =
                   calls (send (findMyUser_now w) (findMyUser_refresh w) FindMyUser ?s1) @ cs)"
    if "truthy_str (tweetId (req_body req))"
    using like_handler_calls [OF that handle, of w ?s1] retweet_handler_calls [OF that handle, of w ?s1]
    by (simp add: guarded_Next [OF passes] left)
  have attempted: "(\<exists>cs. calls (snd (guarded like_handler w req s)) = calls s @ RefreshAccessToken # cs)
             \<and> (\<exists>cs. calls (snd (guarded retweet_handler w req s)) = calls s @ RefreshAccessToken # cs)"
    if "truthy_str (tweetId (req_body req))"
    using routes [OF that] by (auto simp: first)
  have carried: "(\<exists>cs. calls (snd (guarded like_handler w req s)) =
                       calls s @ RefreshAccessToken # FindMyUser (access_token t) # cs)
             \<and> (\<exists>cs. calls (snd (guarded retweet_handler w req s)) =
                       calls s @ RefreshAccessToken # FindMyUser (access_token t) # cs)"
    if "truthy_str (tweetId (req_body req))" and "findMyUser_refresh w = Inr t" for t
    using routes [OF that(1)] by (simp add: first that(2))
  have header_left: "getAuthHeader now refreshed (authClient (snd (withAuth w req s))) =
             (case refreshed of
                Inl e \<Rightarrow> (Inl e, authClient (snd (withAuth w req s)), [RefreshAccessToken])
              | Inr t \<Rightarrow> (Inr (access_token t), Some t, [RefreshAccessToken]))"
    using header [of now refreshed] by (simp add: left split: sum.splits)
  have downstream: "(truthy_str (tweetId (req_body req)) \<longrightarrow>
               (\<exists>cs. calls (snd (guarded like_handler w req s)) = calls s @ RefreshAccessToken # cs)
             \<and> (\<exists>cs. calls (snd (guarded retweet_handler w req s)) = calls s @ RefreshAccessToken # cs))
         \<and> (\<forall>t. truthy_str (tweetId (req_body req)) \<and> findMyUser_refresh w = Inr t \<longrightarrow>
               (\<exists>cs. calls (snd (guarded like_handler w req s)) =
                       calls s @ RefreshAccessToken # FindMyUser (access_token t) # cs)
             \<and> (\<exists>cs. calls (snd (guarded retweet_handler w req s)) =
                       calls s @ RefreshAccessToken # FindMyUser (access_token t) # cs))"
    using attempted carried by blast
  show ?thesis
    by (rule conjI [OF guard conjI [OF absent conjI [OF header_left downstream]]])
qed

theorem withAuth_zero_expiry_witness:
  "truthy_str (accessToken (req_body req_zero)) \<and> truthy_str (refreshToken (req_body req_zero))
   \<and> expiresAt (req_body req_zero) = Some 0
   \<and> 0 \<le> Date_now world0
   \<and> truthy_str (tweetId (req_body req_zero))
   \<and> findMyUser_refresh world0 = Inr token1
   \<and> fst (withAuth world0 req_zero state0) =
        Next \<lparr>l_tokenData = None,
              l_twitterClient = Some (Client (Some \<lparr>access_token = Some ''at0'', refresh_token = Some ''rt0'',
                                                    token_type = Some ''bearer'', expires_at = Some 0\<rparr>)),
              l_twitterId = Some ''42''\<rparr>
   \<and> calls (snd (withAuth world0 req_zero state0)) = []
   \<and> getAuthHeader (findMyUser_now world0) (findMyUser_refresh world0)
        (authClient (snd (withAuth world0 req_zero state0))) =
        (Inr (Some ''at1''), Some token1, [RefreshAccessToken])
   \<and> calls (snd (guarded retweet_handler world0 req_zero state0)) =
        [RefreshAccessToken, FindMyUser (Some ''at1''), UsersIdRetweets (Some ''at1'') ''42'' ''7'',
         UserFindFirst ''42'', UserActionCreate]"
  using withAuth_zero_expiry [of req_zero world0 state0 "findMyUser_now world0" "findMyUser_refresh world0"]
  by (simp add: model_defs example_defs)

text \<open>
  C2, as the claim states it, fails at an expiry of 0: both tokens are present, the clock
  is past that expiry, and yet the guard makes no refresh call and hands on a client holding
  the access token the caller supplied.
\<close>

theorem expired_zero_not_refreshed:
  "truthy_str (accessToken (req_body (req_zero\<lparr>req_query := \<lparr>q_code = None, q_state = None\<rparr>\<rparr>)))
   \<and> truthy_str (refreshToken (req_body (req_zero\<lparr>req_query := \<lparr>q_code = None, q_state = None\<rparr>\<rparr>)))
   \<and> expiresAt (req_body (req_zero\<lparr>req_query := \<lparr>q_code = None, q_state = None\<rparr>\<rparr>)) = Some 0
   \<and> 0 \<le> Date_now world0
   \<and> count_list (calls (snd (withAuth world0 (req_zero\<lparr>req_query := \<lparr>q_code = None, q_state = None\<rparr>\<rparr>) state0)))
        RefreshAccessToken = 0
   \<and> fst (withAuth world0 (req_zero\<lparr>req_query := \<lparr>q_code = None, q_state = None\<rparr>\<rparr>) state0) =
        Next \<lparr>l_tokenData = None,
              l_twitterClient = Some (Client (Some \<lparr>access_token = Some ''at0'', refresh_token = Some ''rt0'',
                                                    token_type = Some ''bearer'', expires_at = Some 0\<rparr>)),
              l_twitterId = Some ''42''\<rparr>"
  by (simp add: model_defs example_defs)

text \<open>
  C2, amended: when both tokens are present and the expiry is non-zero and not after the
  current time, the guard calls the provider's refresh exactly once, and whenever it lets the
  request through, the client handle holds the token that this refresh returned. It lets the
  request through whenever the refresh resolves and, if a twitterId was supplied, the new
  token has an expiry and the store accepts the update.
\<close>

theorem withAuth_expired_refreshes_once:
  assumes "truthy_str (accessToken (req_body req))" and "truthy_str (refreshToken (req_body req))"
    and "expiresAt (req_body req) = Some e" and "e \<noteq> 0" and "Date_now w \<ge> e"
  shows "count_list (calls (snd (withAuth w req s))) RefreshAccessToken
           = count_list (calls s) RefreshAccessToken + 1
         \<and> (\<forall>l. fst (withAuth w req s) = Next l \<longrightarrow>
               (\<exists>t. refreshAccessToken w = Inr t \<and> l_twitterClient l = Some (Client (Some t))))
         \<and> (\<forall>t. refreshAccessToken w = Inr t
                  \<and> (truthy_str (twitterId (req_body req)) \<longrightarrow>
                        expires_at t \<noteq> None \<and> updateMany_throws w = None)
               \<longrightarrow> (\<exists>l. fst (withAuth w req s) = Next l))"
  using assms
  by (auto simp: withAuth_def refresh_tokens_def Let_def token_expired_def truthy_num_def
           split: sum.splits option.splits prod.splits)

theorem withAuth_expired_refreshes_once_witness:
  "truthy_str (accessToken (req_body req0)) \<and> truthy_str (refreshToken (req_body req0))
   \<and> expiresAt (req_body req0) = Some 1000 \<and> (1000::int) \<noteq> 0 \<and> 1000 \<le> Date_now world0
   \<and> fst (withAuth world0 req0 state0) = Next locals0
   \<and> refreshAccessToken world0 = Inr token1
   \<and> l_twitterClient locals0 = Some (Client (Some token1))
   \<and> truthy_str (twitterId (req_body req0))
   \<and> expires_at token1 \<noteq> None \<and> updateMany_throws world0 = None
   \<and> count_list (calls (snd (withAuth world0 req0 state0))) RefreshAccessToken = 1"
  using withAuth_expired_refreshes_once [of req0 1000 world0 state0]
  by (simp add: model_defs example_defs)

text \<open>
  C1, as the claim states it, fails: the refresh succeeded and a twitterId was supplied, the
  store rejects the update, and the guard answers 401 "Authentication failed"; the
  handler behind it does not run (no who-am-I call is logged) and the answer carries no
  token pair.
\<close>

theorem persistence_failure_is_surfaced:
  "truthy_str (accessToken (req_body req0)) \<and> truthy_str (refreshToken (req_body req0))
   \<and> token_expired (Date_now world_db_down) (expiresAt (req_body req0))
   \<and> refreshAccessToken world_db_down = Inr token1
   \<and> truthy_str (twitterId (req_body req0))
   \<and> updateMany_throws world_db_down = Some ''db down''
   \<and> guarded like_handler world_db_down req0 state0 =
        (Json 401 (ErrorBody ''Authentication failed''),
         state0\<lparr>authClient := Some token1, calls := [RefreshAccessToken, UserUpdateMany ''42'']\<rparr>)"
  by (simp add: model_defs example_defs)

text \<open>
  C1, amended: when both tokens are present, the token has expired, the refresh has succeeded
  and a twitterId was supplied, a failure of the store's update aborts the request: the guard
  answers 401 "Authentication failed", so does every route behind it, and the User rows are
  as they were.
\<close>

theorem withAuth_persistence_failure_aborts:
  assumes "truthy_str (accessToken (req_body req))" and "truthy_str (refreshToken (req_body req))"
    and "token_expired (Date_now w) (expiresAt (req_body req))"
    and "refreshAccessToken w = Inr t"
    and "truthy_str (twitterId (req_body req))"
    and "updateMany_throws w = Some e"
  shows "fst (withAuth w req s) = Responded (Json 401 (ErrorBody ''Authentication failed''))
         \<and> fst (guarded h w req s) = Json 401 (ErrorBody ''Authentication failed'')
         \<and> users (snd (withAuth w req s)) = users s"
  using assms
  by (auto simp: withAuth_def guarded_def refresh_tokens_def Let_def
           split: sum.splits option.splits prod.splits)

theorem withAuth_persistence_failure_aborts_witness:
  "truthy_str (accessToken (req_body req0)) \<and> truthy_str (refreshToken (req_body req0))
   \<and> token_expired (Date_now world_db_down) (expiresAt (req_body req0))
   \<and> refreshAccessToken world_db_down = Inr token1
   \<and> truthy_str (twitterId (req_body req0))
   \<and> updateMany_throws world_db_down = Some ''db down''
   \<and> fst (withAuth world_db_down req0 state0) = Responded (Json 401 (ErrorBody ''Authentication failed''))
   \<and> fst (guarded revoke_handler world_db_down req0 state0) = Json 401 (ErrorBody ''Authentication failed'')
   \<and> users (snd (withAuth world_db_down req0 state0)) = [alice]"
  using withAuth_persistence_failure_aborts [of req0 world_db_down token1 "''db down''" state0 revoke_handler]
  by (simp add: model_defs example_defs)

text \<open>
  C3. When the guard refreshes and the provider's answer has no refresh token (absent or
  empty), every request the guard lets through carries the caller's refresh token in the
  replacement pair, and, when a twitterId was supplied, the update written to the store is
  the one made with the caller's refresh token: every row with that external id holds it.
\<close>

theorem withAuth_keeps_refresh_token:
  assumes "truthy_str (accessToken (req_body req))" and "truthy_str (refreshToken (req_body req))"
    and "token_expired (Date_now w) (expiresAt (req_body req))"
    and "refreshAccessToken w = Inr t"
    and "\<not> truthy_str (refresh_token t)"
    and "fst (withAuth w req s) = Next l"
  shows "map_option td_refreshToken (l_tokenData l) = Some (refreshToken (req_body req))
         \<and> (truthy_str (twitterId (req_body req)) \<longrightarrow>
              (\<exists>ex. expires_at t = Some ex \<and>
                 users (snd (withAuth w req s)) =
                   updateMany (str_value (twitterId (req_body req))) t
                     (refreshToken (req_body req)) ex (new_Date w) (users s))
              \<and> (\<forall>u \<in> set (users (snd (withAuth w req s))).
                     u_twitterId u = str_value (twitterId (req_body req))
                     \<longrightarrow> u_refreshToken u = refreshToken (req_body req)))"
  using assms
  by (auto simp: withAuth_def refresh_tokens_def Let_def or_fallback_def updateMany_def
           split: sum.splits option.splits prod.splits if_splits)

theorem withAuth_keeps_refresh_token_witness:
  "truthy_str (accessToken (req_body req0)) \<and> truthy_str (refreshToken (req_body req0))
   \<and> token_expired (Date_now world0) (expiresAt (req_body req0))
   \<and> refreshAccessToken world0 = Inr token1
   \<and> \<not> truthy_str (refresh_token token1)
   \<and> fst (withAuth world0 req0 state0) = Next locals0
   \<and> truthy_str (twitterId (req_body req0))
   \<and> map_option td_refreshToken (l_tokenData locals0) = Some (Some ''rt0'')
   \<and> users (snd (withAuth world0 req0 state0)) = [alice_refreshed]
   \<and> u_twitterId alice_refreshed = str_value (twitterId (req_body req0))
   \<and> u_refreshToken alice_refreshed = Some ''rt0''
   \<and> u_refreshToken alice = Some ''rt_old''"
  using withAuth_keeps_refresh_token [of req0 world0 token1 state0 locals0]
  by (simp add: model_defs example_defs)

section \<open>The callback and revoke\<close>

text \<open>
  C7. A callback whose \<open>state\<close> parameter is not the constant \<open>twitter-auth-state\<close> (or is
  absent) is answered 400 and leaves the state it found: no token exchange, no upsert, no
  call at all.
\<close>

theorem callback_wrong_state:
  assumes "q_state (req_query req) \<noteq> Some STATE"
  shows "callback_handler w req s = (Json 400 (ErrorBody ''Invalid state parameter''), s)"
  using assms by (simp add: callback_handler_def)

theorem callback_wrong_state_witness:
  "q_state (req_query req0) \<noteq> Some STATE
   \<and> STATE = ''twitter-auth-state''
   \<and> callback_handler world0 req0 state0 = (Json 400 (ErrorBody ''Invalid state parameter''), state0)
   \<and> users state0 = [alice] \<and> calls state0 = []"
  using callback_wrong_state [of req0 world0 state0]
  by (simp add: STATE_def example_defs)

text \<open>
  C9. The revoke handler makes one call, the provider's revoke, and leaves both tables as they
  were, whatever the provider answers. On the whole route, where the guard runs first and may
  rewrite the token columns of a User row, no action row changes and no User row is added or
  removed.
\<close>

theorem revoke_frame:
  "users (snd (revoke_handler w req l s)) = users s
   \<and> userActions (snd (revoke_handler w req l s)) = userActions s
   \<and> calls (snd (revoke_handler w req l s)) = calls s @ [RevokeAccessToken]
   \<and> userActions (snd (guarded revoke_handler w req s)) = userActions s
   \<and> map u_id (users (snd (guarded revoke_handler w req s))) = map u_id (users s)
   \<and> map u_twitterId (users (snd (guarded revoke_handler w req s))) = map u_twitterId (users s)"
  by (auto simp: revoke_handler_def guarded_def withAuth_def refresh_tokens_def Let_def updateMany_def
           split: sum.splits option.splits prod.splits guard_result.splits)

theorem revoke_frame_witness:
  "fst (guarded revoke_handler world0 req0 state0) = Json 200 (RevokeBody ''revoked'')
   \<and> users (snd (revoke_handler world0 req0 locals0 state0)) = [alice]
   \<and> userActions (snd (revoke_handler world0 req0 locals0 state0)) = []
   \<and> calls (snd (revoke_handler world0 req0 locals0 state0)) = [RevokeAccessToken]
   \<and> userActions (snd (guarded revoke_handler world0 req0 state0)) = []
   \<and> map u_id (users (snd (guarded revoke_handler world0 req0 state0))) = [''u1'']
   \<and> map u_twitterId (users (snd (guarded revoke_handler world0 req0 state0))) = [''42'']"
  using revoke_frame [of world0 req0 locals0 state0]
  by (simp add: model_defs example_defs)

section \<open>The action handlers and the statistics\<close>

text \<open>
  C5, as the claim states it, fails when the body carries no twitterId: the request passes
  the guard and carries a tweetId, the provider resolves the caller to an external id that a
  User row has, the like is attempted and answered, and no UserAction row is written.
\<close>

theorem anonymous_like_not_logged:
  "fst (withAuth world0 req_anonymous state0) =
        Next \<lparr>l_tokenData = Some \<lparr>td_accessToken = Some ''at1'', td_refreshToken = Some ''rt0'',
                                   td_expiresAt = Some 9000\<rparr>,
              l_twitterClient = Some (Client (Some token1)),
              l_twitterId = None\<rparr>
   \<and> truthy_str (tweetId (req_body req_anonymous))
   \<and> findMyUser world0 = Inr \<lparr>ur_data = Some me0\<rparr>
   \<and> findFirst (tw_id me0) (users state0) = Some alice
   \<and> fst (guarded like_handler world0 req_anonymous state0) =
        Json 200 (ActionBody False (Rejected ''rate limited'')
                    (Some \<lparr>td_accessToken = Some ''at1'', td_refreshToken = Some ''rt0'',
                           td_expiresAt = Some 9000\<rparr>))
   \<and> userActions (snd (guarded like_handler world0 req_anonymous state0)) = []"
  by (simp add: model_defs example_defs)

text \<open>
  C5, amended: for every like or retweet request that passes the guard and carries a tweetId,
  if the who-am-I lookup resolves to an identity, a User row with that external id exists and
  the store's calls go through, then exactly one UserAction row with the action's name and
  success flag is appended when the body also carries a non-empty twitterId, whether the
  provider action succeeded or failed, and none otherwise.
\<close>

theorem action_logged_once:
  assumes "fst (withAuth w req s) = Next l"
    and "truthy_str (tweetId (req_body req))"
    and "findMyUser w = Inr ur" and "ur_data ur = Some d"
    and "findFirst (tw_id d) (users s) = Some u"
    and "findFirst_throws w = None" and "create_throws w = None"
  shows "userActions (snd (guarded like_handler w req s)) =
           (if truthy_str (twitterId (req_body req))
            then userActions s @ [\<lparr>a_id = fresh_action_id w, a_userId = u_id u,
                                    a_tweetId = str_value (tweetId (req_body req)),
                                    a_action = ''like'', a_success = (\<not> isl (usersIdLike w)),
                                    a_createdAt = store_now w\<rparr>]
            else userActions s)
         \<and> userActions (snd (guarded retweet_handler w req s)) =
           (if truthy_str (twitterId (req_body req))
            then userActions s @ [\<lparr>a_id = fresh_action_id w, a_userId = u_id u,
                                    a_tweetId = str_value (tweetId (req_body req)),
                                    a_action = ''retweet'', a_success = (\<not> isl (usersIdRetweets w)),
                                    a_createdAt = store_now w\<rparr>]
            else userActions s)"
proof -
  define s1 where "s1 = snd (withAuth w req s)"
  have ua: "userActions s1 = userActions s"
    by (simp add: s1_def withAuth_userActions)
  have "map_option u_id (findFirst (tw_id d) (users s1)) = Some (u_id u)"
    using withAuth_findFirst [of "tw_id d" w req s] assms(5) by (simp add: s1_def)
  then obtain u1 where u1: "findFirst (tw_id d) (users s1) = Some u1" "u_id u1 = u_id u"
    by auto
  note tw = withAuth_locals [OF assms(1)]
  from tw obtain c where c: "l_twitterClient l = Some c" by auto
  have like: "userActions (snd (like_handler w req l s1)) =
           (if truthy_str (twitterId (req_body req))
            then userActions s @ [\<lparr>a_id = fresh_action_id w, a_userId = u_id u,
                                    a_tweetId = str_value (tweetId (req_body req)),
                                    a_action = ''like'', a_success = (\<not> isl (usersIdLike w)),
                                    a_createdAt = store_now w\<rparr>]
            else userActions s)"
    using assms(2,3,4,6,7) u1 tw c ua
    by (auto simp: like_handler_def log_action_def Let_def split: sum.splits)
  have retweet: "userActions (snd (retweet_handler w req l s1)) =
           (if truthy_str (twitterId (req_body req))
            then userActions s @ [\<lparr>a_id = fresh_action_id w, a_userId = u_id u,
                                    a_tweetId = str_value (tweetId (req_body req)),
                                    a_action = ''retweet'', a_success = (\<not> isl (usersIdRetweets w)),
                                    a_createdAt = store_now w\<rparr>]
            else userActions s)"
    using assms(2,3,4,6,7) u1 tw c ua
    by (auto simp: retweet_handler_def log_action_def Let_def split: sum.splits)
  show ?thesis
    using like retweet by (simp add: guarded_Next [OF assms(1)] s1_def)
qed

theorem action_logged_once_witness:
  "fst (withAuth world0 req0 state0) = Next locals0
   \<and> truthy_str (tweetId (req_body req0))
   \<and> findMyUser world0 = Inr \<lparr>ur_data = Some me0\<rparr>
   \<and> findFirst (tw_id me0) (users state0) = Some alice
   \<and> findFirst_throws world0 = None \<and> create_throws world0 = None
   \<and> truthy_str (twitterId (req_body req0))
   \<and> userActions (snd (guarded like_handler world0 req0 state0)) =
        [\<lparr>a_id = ''a1'', a_userId = ''u1'', a_tweetId = ''7'', a_action = ''like'', a_success = False,
          a_createdAt = 2004\<rparr>]
   \<and> userActions (snd (guarded retweet_handler world0 req0 state0)) =
        [\<lparr>a_id = ''a1'', a_userId = ''u1'', a_tweetId = ''7'', a_action = ''retweet'', a_success = True,
          a_createdAt = 2004\<rparr>]"
  using action_logged_once [of world0 req0 state0 locals0 "\<lparr>ur_data = Some me0\<rparr>" me0 alice]
  by (simp add: model_defs example_defs)



text \<open>Every route keeps the action names within \<open>like\<close> and \<open>retweet\<close>.\<close>

lemma log_action_names:
  assumes "log_action w l uid tid act b s = (r, s')" and "a \<in> set (userActions s')"
  shows "a \<in> set (userActions s) \<or> a_action a = act"
  using assms by (auto simp: log_action_def Let_def split: option.splits if_splits)

lemma like_handler_names:
  assumes "a \<in> set (userActions (snd (like_handler w req l s)))"
  shows "a \<in> set (userActions s) \<or> a_action a = ''like''"
  using assms
  by (auto simp: like_handler_def Let_def split: option.splits sum.splits prod.splits if_splits
           dest: log_action_names)

lemma retweet_handler_names:
  assumes "a \<in> set (userActions (snd (retweet_handler w req l s)))"
  shows "a \<in> set (userActions s) \<or> a_action a = ''retweet''"
  using assms
  by (auto simp: retweet_handler_def Let_def split: option.splits sum.splits prod.splits if_splits
           dest: log_action_names)

lemma revoke_handler_userActions: "userActions (snd (revoke_handler w req l s)) = userActions s"
  by (simp add: revoke_handler_def Let_def split: sum.splits)

lemma stats_handler_userActions: "userActions (snd (stats_handler w req l s)) = userActions s"
  by (simp add: stats_handler_def Let_def split: sum.splits option.splits)

lemma callback_handler_userActions: "userActions (snd (callback_handler w req s)) = userActions s"
  by (auto simp: callback_handler_def store_user_def Let_def split: sum.splits option.splits prod.splits)

lemma guarded_names:
  assumes h: "\<And>l s1. a \<in> set (userActions (snd (h w req l s1))) \<Longrightarrow> a \<in> set (userActions s1) \<or> P a"
    and a: "a \<in> set (userActions (snd (guarded h w req s)))"
  shows "a \<in> set (userActions s) \<or> P a"
proof (cases "fst (withAuth w req s)")
  case (Responded r)
  then have "snd (guarded h w req s) = snd (withAuth w req s)"
    by (cases "withAuth w req s") (simp add: guarded_def)
  with a show ?thesis by (simp add: withAuth_userActions)
next
  case (Next l)
  from a h [of l "snd (withAuth w req s)"] show ?thesis
    by (simp add: guarded_Next [OF Next] withAuth_userActions)
qed

lemma reachable_names:
  assumes "reachable s"
  shows "\<forall>a \<in> set (userActions s). a_action a = ''like'' \<or> a_action a = ''retweet''"
  using assms
proof (induction rule: reachable.induct)
  case (start s)
  then show ?case by simp
next
  case (like s w req)
  show ?case
  proof
    fix a assume "a \<in> set (userActions (snd (guarded like_handler w req s)))"
    then have "a \<in> set (userActions s) \<or> a_action a = ''like''"
      by (rule guarded_names [rotated]) (rule like_handler_names)
    with like.IH show "a_action a = ''like'' \<or> a_action a = ''retweet''" by auto
  qed
next
  case (retweet s w req)
  show ?case
  proof
    fix a assume "a \<in> set (userActions (snd (guarded retweet_handler w req s)))"
    then have "a \<in> set (userActions s) \<or> a_action a = ''retweet''"
      by (rule guarded_names [rotated]) (rule retweet_handler_names)
    with retweet.IH show "a_action a = ''like'' \<or> a_action a = ''retweet''" by auto
  qed
next
  case (revoke s w req)
  show ?case
  proof
    fix a assume "a \<in> set (userActions (snd (guarded revoke_handler w req s)))"
    then have "a \<in> set (userActions s) \<or> False"
      by (rule guarded_names [rotated]) (simp add: revoke_handler_userActions)
    with revoke.IH show "a_action a = ''like'' \<or> a_action a = ''retweet''" by auto
  qed
next
  case (stats s w req)
  show ?case
  proof
    fix a assume "a \<in> set (userActions (snd (guarded stats_handler w req s)))"
    then have "a \<in> set (userActions s) \<or> False"
      by (rule guarded_names [rotated]) (simp add: stats_handler_userActions)
    with stats.IH show "a_action a = ''like'' \<or> a_action a = ''retweet''" by auto
  qed
next
  case (callback s w req)
  then show ?case by (simp add: callback_handler_userActions)
qed

lemma count_by_action:
  assumes "\<forall>a \<in> set as. a_action a = ''like'' \<or> a_action a = ''retweet''"
  shows "count (\<lambda>a. a_userId a = i) as =
           count (\<lambda>a. a_userId a = i \<and> a_action a = ''like'') as
           + count (\<lambda>a. a_userId a = i \<and> a_action a = ''retweet'') as"
  using assms by (induction as) (auto simp: count_def)

lemma count_by_success:
  "count (\<lambda>a. a_userId a = i) as =
     count (\<lambda>a. a_userId a = i \<and> a_success a = True) as
     + count (\<lambda>a. a_userId a = i \<and> a_success a = False) as"
  by (induction as) (auto simp: count_def)

lemma stats_handler_counts:
  assumes inv: "\<forall>a \<in> set (userActions s). a_action a = ''like'' \<or> a_action a = ''retweet''"
    and r: "fst (stats_handler w req l s) = Json n (StatsBody v st tk)"
  shows "totalActions st = likes st + retweets st \<and> totalActions st = successful st + failed st"
proof -
  from r obtain i where
    "st = \<lparr>totalActions = count (\<lambda>a. a_userId a = i) (userActions s),
           likes = count (\<lambda>a. a_userId a = i \<and> a_action a = ''like'') (userActions s),
           retweets = count (\<lambda>a. a_userId a = i \<and> a_action a = ''retweet'') (userActions s),
           successful = count (\<lambda>a. a_userId a = i \<and> a_success a = True) (userActions s),
           failed = count (\<lambda>a. a_userId a = i \<and> a_success a = False) (userActions s)\<rparr>"
    by (auto simp: stats_handler_def Let_def split: sum.splits option.splits)
  then show ?thesis
    using count_by_action [OF inv, of i] count_by_success [of i "userActions s"] by simp
qed

text \<open>
  C10. In every state the routes can reach from an empty action table, each UserAction row is
  named \<open>like\<close> or \<open>retweet\<close> (its success flag is a boolean by type), and every answer of
  the statistics route that carries counts has \<open>totalActions = likes + retweets\<close> and
  \<open>totalActions = successful + failed\<close>.
\<close>

theorem reachable_stats_add_up:
  assumes "reachable s"
  shows "(\<forall>a \<in> set (userActions s). a_action a = ''like'' \<or> a_action a = ''retweet'')
         \<and> (\<forall>w req n v st tk.
               fst (guarded stats_handler w req s) = Json n (StatsBody v st tk) \<longrightarrow>
               totalActions st = likes st + retweets st
               \<and> totalActions st = successful st + failed st)"
proof (intro conjI allI impI)
  show inv: "\<forall>a \<in> set (userActions s). a_action a = ''like'' \<or> a_action a = ''retweet''"
    using assms by (rule reachable_names)
  fix w req n v st tk
  assume r: "fst (guarded stats_handler w req s) = Json n (StatsBody v st tk)"
  have "\<exists>l. fst (withAuth w req s) = Next l"
  proof (cases "fst (withAuth w req s)")
    case (Responded x)
    then have "fst (guarded stats_handler w req s) = x"
      by (cases "withAuth w req s") (simp add: guarded_def)
    moreover from Responded have "\<exists>m. x = Json 401 (ErrorBody m)"
      by (auto simp: withAuth_def Let_def split: if_splits prod.splits sum.splits)
    ultimately show ?thesis using r by auto
  qed simp
  then obtain l where l: "fst (withAuth w req s) = Next l" ..
  have "fst (stats_handler w req l (snd (withAuth w req s))) = Json n (StatsBody v st tk)"
    using r by (simp add: guarded_Next [OF l])
  moreover have "\<forall>a \<in> set (userActions (snd (withAuth w req s))). a_action a = ''like'' \<or> a_action a = ''retweet''"
    using inv by (simp add: withAuth_userActions)
  ultimately have c: "totalActions st = likes st + retweets st \<and> totalActions st = successful st + failed st"
    by (rule stats_handler_counts [rotated])
  from c show "totalActions st = likes st + retweets st" ..
  from c show "totalActions st = successful st + failed st" ..
qed

theorem reachable_stats_add_up_witness:
  "reachable state_both
   \<and> userActions state_both =
        [\<lparr>a_id = ''a1'', a_userId = ''u1'', a_tweetId = ''7'', a_action = ''like'', a_success = False,
          a_createdAt = 2004\<rparr>,
         \<lparr>a_id = ''a2'', a_userId = ''u1'', a_tweetId = ''7'', a_action = ''retweet'', a_success = True,
          a_createdAt = 2004\<rparr>]
   \<and> fst (guarded stats_handler world0 req0 state_both) =
        Json 200 (StatsBody \<lparr>v_id = ''42'', v_username = Some ''alice'', v_name = None, v_profileImgUrl = None\<rparr>
                            \<lparr>totalActions = 2, likes = 1, retweets = 1, successful = 1, failed = 1\<rparr>
                            (l_tokenData locals0))"
proof -
  have r: "reachable state_both"
    unfolding state_both_def state_liked_def
    by (intro reachable.retweet reachable.like reachable.start) (simp add: state0_def)
  have a: "userActions state_both =
        [\<lparr>a_id = ''a1'', a_userId = ''u1'', a_tweetId = ''7'', a_action = ''like'', a_success = False,
          a_createdAt = 2004\<rparr>,
         \<lparr>a_id = ''a2'', a_userId = ''u1'', a_tweetId = ''7'', a_action = ''retweet'', a_success = True,
          a_createdAt = 2004\<rparr>]"
    by (simp add: model_defs example_defs)
  have st: "fst (guarded stats_handler world0 req0 state_both) =
        Json 200 (StatsBody \<lparr>v_id = ''42'', v_username = Some ''alice'', v_name = None, v_profileImgUrl = None\<rparr>
                            \<lparr>totalActions = 2, likes = 1, retweets = 1, successful = 1, failed = 1\<rparr>
                            (l_tokenData locals0))"
    by (simp add: model_defs example_defs)
  show ?thesis
    using reachable_stats_add_up [OF r] r a st by simp
qed

end
